theory Spec2Isabelle
  imports Main "HOL-Library.Product_Lexorder"
begin

section \<open>Values of the program\<close>

text \<open>
  A Python \<open>str\<close> is a list of Unicode code points, a \<open>bytes\<close> object a list of
  8-bit characters.  A naive \<open>datetime\<close> is a calendar day (its proleptic ordinal, an
  integer) paired with a time of day in microseconds; Python compares naive datetimes
  field by field, which is the lexicographic order of the pair.
\<close>

type_synonym str = "nat list"
type_synonym bytes = "char list"
type_synonym date = int
type_synonym time = nat
type_synonym datetime = "date \<times> time"

definition ascii :: "string \<Rightarrow> str" where
  "ascii s = map (of_char :: char \<Rightarrow> nat) s"

definition combine :: "date \<Rightarrow> time \<Rightarrow> datetime" where
  "combine d t = (d, t)"

definition date_of :: "datetime \<Rightarrow> date" where
  "date_of dt = fst dt"

definition time_of :: "datetime \<Rightarrow> time" where
  "time_of dt = snd dt"

text \<open>
  What the program takes from outside its own source: the optional \<open>dateutil\<close> parser
  (\<open>None\<close> when the import failed; the parser itself returns \<open>None\<close> where it raises,
  its first argument is the \<open>fuzzy\<close> flag), the local-time conversions
  \<open>datetime.fromtimestamp(iv)\<close> on an integer and \<open>datetime.fromtimestamp(iv / 1000.0)\<close>
  on the float quotient (\<open>None\<close> where they raise), the terminal and the \<open>NO_COLOR\<close>
  variable, and the Unicode character database for code points above 127.
\<close>

record pyenv =
  dateutil :: "(bool \<Rightarrow> str \<Rightarrow> datetime option) option"
  fromtimestamp :: "int \<Rightarrow> datetime option"
  fromtimestamp_float :: "int \<Rightarrow> datetime option"
  stdout_isatty :: bool
  no_color :: bool
  uni_isalpha :: "nat \<Rightarrow> bool"
  uni_isdigit :: "nat \<Rightarrow> bool"
  uni_isspace :: "nat \<Rightarrow> bool"
  uni_isalnum :: "nat \<Rightarrow> bool"
  uni_decimal :: "nat \<Rightarrow> nat option"
  uni_lower :: "nat \<Rightarrow> nat"

section \<open>Character predicates\<close>

definition isdigit :: "pyenv \<Rightarrow> nat \<Rightarrow> bool" where
  "isdigit E c = (if c < 128 then 48 \<le> c \<and> c \<le> 57 else uni_isdigit E c)"

definition ascii_letter :: "nat \<Rightarrow> bool" where
  "ascii_letter c = ((65 \<le> c \<and> c \<le> 90) \<or> (97 \<le> c \<and> c \<le> 122))"

definition isalpha :: "pyenv \<Rightarrow> nat \<Rightarrow> bool" where
  "isalpha E c = (if c < 128 then ascii_letter c else uni_isalpha E c)"

definition isspace :: "pyenv \<Rightarrow> nat \<Rightarrow> bool" where
  "isspace E c =
     (if c < 128 then c = 32 \<or> (9 \<le> c \<and> c \<le> 13) \<or> (28 \<le> c \<and> c \<le> 31)
      else uni_isspace E c)"

text \<open>The value of a decimal digit (category Nd), as \<open>\d\<close> and \<open>int()\<close> read it.\<close>

definition decimal_value :: "pyenv \<Rightarrow> nat \<Rightarrow> nat option" where
  "decimal_value E c =
     (if 48 \<le> c \<and> c \<le> 57 then Some (c - 48)
      else if c < 128 then None else uni_decimal E c)"

text \<open>A word character of \<open>\b\<close>: alphanumeric or the underscore.\<close>

definition isword :: "pyenv \<Rightarrow> nat \<Rightarrow> bool" where
  "isword E c =
     (if c < 128 then ascii_letter c \<or> (48 \<le> c \<and> c \<le> 57) \<or> c = 95
      else uni_isalnum E c)"

definition fold_case :: "pyenv \<Rightarrow> nat \<Rightarrow> nat" where
  "fold_case E c =
     (if 65 \<le> c \<and> c \<le> 90 then c + 32 else if c < 128 then c else uni_lower E c)"

text \<open>\<open>str.strip()\<close>: whitespace removed at both ends.\<close>

definition lstrip :: "pyenv \<Rightarrow> str \<Rightarrow> str" where
  "lstrip E s = dropWhile (isspace E) s"

definition strip :: "pyenv \<Rightarrow> str \<Rightarrow> str" where
  "strip E s = rev (dropWhile (isspace E) (rev (lstrip E s)))"

section \<open>Regular expressions\<close>

text \<open>
  The patterns of the program use character classes, greedy bounded repetition of a
  class, concatenation, alternation, a greedy optional group, the anchors \<open>^\<close>, \<open>$\<close>
  and \<open>\b\<close>, and one capturing group.  A pattern is its syntax tree; the matcher
  returns every way to match from a position in the order in which Python's backtracking
  matcher tries them, so the head of the list is the match Python reports.
\<close>

datatype cls =
    Digit
  | Space
  | Letter
  | LowerI
  | Lit nat
  | LitI nat
  | OneOf "nat list"

fun in_cls :: "pyenv \<Rightarrow> cls \<Rightarrow> nat \<Rightarrow> bool" where
  "in_cls E Digit c = (decimal_value E c \<noteq> None)"
| "in_cls E Space c = isspace E c"
| "in_cls E Letter c = ascii_letter c"
| "in_cls E LowerI c = (97 \<le> fold_case E c \<and> fold_case E c \<le> 122)"
| "in_cls E (Lit d) c = (c = d)"
| "in_cls E (LitI d) c = (fold_case E c = d)"
| "in_cls E (OneOf ds) c = (c \<in> set ds)"

datatype re =
    Cls cls
  | Rep cls nat "nat option"
  | Cat re re
  | Alt re re
  | Opt re
  | Eps
  | Bol
  | Eol
  | Wordb
  | Group re

type_synonym mstate = "nat \<times> (nat \<times> nat) option"

definition run :: "pyenv \<Rightarrow> cls \<Rightarrow> nat option \<Rightarrow> str \<Rightarrow> nat" where
  "run E c n xs =
     (let l = length (takeWhile (in_cls E c) xs)
      in case n of None \<Rightarrow> l | Some b \<Rightarrow> min b l)"

definition word_at :: "pyenv \<Rightarrow> str \<Rightarrow> nat \<Rightarrow> bool" where
  "word_at E s i = (i < length s \<and> isword E (s ! i))"

fun rmatch :: "pyenv \<Rightarrow> re \<Rightarrow> str \<Rightarrow> mstate \<Rightarrow> mstate list" where
  "rmatch E (Cls c) s (i, g) =
     (if i < length s \<and> in_cls E c (s ! i) then [(Suc i, g)] else [])"
| "rmatch E (Rep c m n) s (i, g) =
     map (\<lambda>j. (i + j, g)) (rev [m..<Suc (run E c n (drop i s))])"
| "rmatch E (Cat a b) s st = concat (map (rmatch E b s) (rmatch E a s st))"
| "rmatch E (Alt a b) s st = rmatch E a s st @ rmatch E b s st"
| "rmatch E (Opt a) s st = rmatch E a s st @ [st]"
| "rmatch E Eps s st = [st]"
| "rmatch E Bol s (i, g) = (if i = 0 then [(i, g)] else [])"
| "rmatch E Eol s (i, g) =
     (if i = length s \<or> (Suc i = length s \<and> s ! i = 10) then [(i, g)] else [])"
| "rmatch E Wordb s (i, g) =
     (if (0 < i \<and> word_at E s (i - 1)) \<noteq> word_at E s i then [(i, g)] else [])"
| "rmatch E (Group a) s (i, g) =
     map (\<lambda>(j, _). (j, Some (i, j))) (rmatch E a s (i, g))"

text \<open>A match object: where the match starts, where it ends, and the span of group 1.\<close>

type_synonym mtch = "nat \<times> mstate"

definition re_match :: "pyenv \<Rightarrow> re \<Rightarrow> str \<Rightarrow> mtch option" where
  "re_match E r s = (case rmatch E r s (0, None) of [] \<Rightarrow> None | m # _ \<Rightarrow> Some (0, m))"

definition re_fullmatch :: "pyenv \<Rightarrow> re \<Rightarrow> str \<Rightarrow> mtch option" where
  "re_fullmatch E r s =
     (case filter (\<lambda>m. fst m = length s) (rmatch E r s (0, None)) of
        [] \<Rightarrow> None | m # _ \<Rightarrow> Some (0, m))"

fun search_from :: "pyenv \<Rightarrow> re \<Rightarrow> str \<Rightarrow> nat list \<Rightarrow> mtch option" where
  "search_from E r s [] = None"
| "search_from E r s (i # is) =
     (case rmatch E r s (i, None) of [] \<Rightarrow> search_from E r s is | m # _ \<Rightarrow> Some (i, m))"

definition re_search :: "pyenv \<Rightarrow> re \<Rightarrow> str \<Rightarrow> mtch option" where
  "re_search E r s = search_from E r s [0..<Suc (length s)]"

definition group1 :: "str \<Rightarrow> mtch \<Rightarrow> str option" where
  "group1 s m = (case snd (snd m) of None \<Rightarrow> None | Some (a, b) \<Rightarrow> Some (take (b - a) (drop a s)))"

fun cat :: "re list \<Rightarrow> re" where
  "cat [] = Eps"
| "cat [r] = r"
| "cat (r # rs) = Cat r (cat rs)"

section \<open>Epoch timestamps\<close>

text \<open>\<^verbatim>\<open>EPOCH_RE = re.compile(r"^\d{10}(?:\d{3})?$")\<close>\<close>

definition EPOCH_RE :: re where
  "EPOCH_RE = cat [Bol, Rep Digit 10 (Some 10), Opt (Rep Digit 3 (Some 3)), Eol]"

text \<open>
  \<open>int(value)\<close> on a string of decimal digits with surrounding whitespace; \<open>None\<close> is
  the \<open>ValueError\<close>.  Signs and underscores cannot pass \<open>EPOCH_RE\<close> and are left out.
\<close>

definition py_int :: "pyenv \<Rightarrow> str \<Rightarrow> int option" where
  "py_int E v =
     (let t = strip E v
      in if t = [] \<or> (\<exists>c \<in> set t. decimal_value E c = None) then None
         else Some (foldl (\<lambda>a c. 10 * a + int (the (decimal_value E c))) 0 t))"

definition parse_epoch :: "pyenv \<Rightarrow> str \<Rightarrow> datetime option" where
  "parse_epoch E v =
     (if re_match E EPOCH_RE v = None then None
      else case py_int E v of
             None \<Rightarrow> None
           | Some iv \<Rightarrow>
               if length v = 13 then fromtimestamp_float E iv else fromtimestamp E iv)"

definition parse_user_datetime :: "pyenv \<Rightarrow> str \<Rightarrow> datetime option" where
  "parse_user_datetime E v =
     (case parse_epoch E v of
        Some dt \<Rightarrow> Some dt
      | None \<Rightarrow> (case dateutil E of None \<Rightarrow> None | Some p \<Rightarrow> p False v))"

section \<open>Shapes of dates and times\<close>

fun alts :: "re list \<Rightarrow> re" where
  "alts [] = Eps"
| "alts [r] = r"
| "alts (r # rs) = Alt r (alts rs)"

definition word_i :: "string \<Rightarrow> re" where
  "word_i w = cat (map (\<lambda>c. Cls (LitI (of_char c))) w)"

text \<open>\<^verbatim>\<open>TIME_CORE_RE = re.compile(r"\d{1,2}:\d{2}:\d{2}(?:\.\d{1,6})?")\<close>\<close>

definition TIME_CORE_RE :: re where
  "TIME_CORE_RE =
     cat [Rep Digit 1 (Some 2), Cls (Lit 58), Rep Digit 2 (Some 2), Cls (Lit 58),
          Rep Digit 2 (Some 2), Opt (Cat (Cls (Lit 46)) (Rep Digit 1 (Some 6)))]"

text \<open>
  \<^verbatim>\<open>MONTH_RE = re.compile(r"(?:Jan|Feb|Mar|Apr|May|Jun|Jul|Aug|Sep|Oct|Nov|Dec)[a-z]*", re.I)\<close>
\<close>

definition MONTH_RE :: re where
  "MONTH_RE =
     Cat (alts (map word_i [''jan'', ''feb'', ''mar'', ''apr'', ''may'', ''jun'',
                            ''jul'', ''aug'', ''sep'', ''oct'', ''nov'', ''dec'']))
         (Rep LowerI 0 None)"

text \<open>The patterns written inline in \<open>input_is_time_only\<close> and \<open>parse_line_timestamp\<close>:
  \<^verbatim>\<open>\d{1,2}:\d{2}\<close>, \<^verbatim>\<open>\b\d{4}\b\<close> and \<^verbatim>\<open>\b\d{1,2}[\-/]\d{1,2}\b\<close>.\<close>

definition CLOCK_RE :: re where
  "CLOCK_RE = cat [Rep Digit 1 (Some 2), Cls (Lit 58), Rep Digit 2 (Some 2)]"

definition YEAR_RE :: re where
  "YEAR_RE = cat [Wordb, Rep Digit 4 (Some 4), Wordb]"

definition MONTH_DAY_RE :: re where
  "MONTH_DAY_RE =
     cat [Wordb, Rep Digit 1 (Some 2), Cls (OneOf [45, 47]), Rep Digit 1 (Some 2), Wordb]"

definition input_is_time_only :: "pyenv \<Rightarrow> str \<Rightarrow> bool" where
  "input_is_time_only E s =
     (let has_time = (re_search E CLOCK_RE s \<noteq> None);
          has_year = (re_search E YEAR_RE s \<noteq> None);
          has_month_day = (re_search E MONTH_DAY_RE s \<noteq> None \<or> re_search E MONTH_RE s \<noteq> None)
      in has_time \<and> \<not> (has_year \<or> has_month_day))"

section \<open>Learning a pattern from an example\<close>

text \<open>
  The source builds the pattern as text and compiles it.  Each token is kept here as the
  syntax tree of its text: \<^verbatim>\<open>[A-Za-z]{3,9}\<close>, \<^verbatim>\<open>[A-Za-z]+\<close>, \<^verbatim>\<open>\d{1,2}\<close>,
  \<^verbatim>\<open>\d{1,4}\<close>, \<^verbatim>\<open>\.\d{1,9}\<close>, and for any other character the character itself,
  escaped when it is one of \<open>SPECIALS\<close>; the final \<open>replace\<close> turns the space, which no
  other token contains, into \<^verbatim>\<open>\s+\<close>.
\<close>

definition SPECIALS :: str where
  "SPECIALS = ascii ''.()[]{}^$|?+*'' @ [92, 92]"

definition escape_lit :: "nat \<Rightarrow> str" where
  "escape_lit ch = (if ch \<in> set SPECIALS then [92, ch] else [ch])"

definition lit_token :: "nat \<Rightarrow> re" where
  "lit_token ch = (if escape_lit ch = [32] then Rep Space 1 None else Cls (Lit ch))"

function tokenize :: "pyenv \<Rightarrow> str \<Rightarrow> nat \<Rightarrow> re list" where
  "tokenize E s i =
     (if i < length s then
        let ch = s ! i in
        if isalpha E ch then
          let j = i + length (takeWhile (isalpha E) (drop i s));
              word = take (j - i) (drop i s)
          in (if re_fullmatch E MONTH_RE word \<noteq> None then Rep Letter 3 (Some 9)
              else Rep Letter 1 None) # tokenize E s j
        else if isdigit E ch then
          let j = i + length (takeWhile (isdigit E) (drop i s))
          in (if (0 < i \<and> s ! (i - 1) = 58) \<or> (j < length s \<and> s ! j = 58)
              then Rep Digit 1 (Some 2)
              else Rep Digit 1 (Some 4)) # tokenize E s j
        else if ch = 46 then
          Cat (Cls (Lit 46)) (Rep Digit 1 (Some 9)) # tokenize E s (i + 1)
        else lit_token ch # tokenize E s (i + 1)
      else [])"
  by pat_completeness auto
termination
proof (relation "measure (\<lambda>(E, s, i). length s - i)")
  show "wf (measure (\<lambda>(E :: pyenv, s :: str, i :: nat). length s - i))"
    by simp
next
  fix E :: pyenv and s :: str and i ch j word
  assume a: "i < length s" "ch = s ! i" "isalpha E ch"
    and j: "j = i + length (takeWhile (isalpha E) (drop i s))"
  have "drop i s = s ! i # drop (Suc i) s"
    using a(1) by (simp add: Cons_nth_drop_Suc)
  then have "0 < length (takeWhile (isalpha E) (drop i s))"
    using a by simp
  then have "i < j"
    using j by simp
  then show "((E, s, j), (E, s, i)) \<in> measure (\<lambda>(E, s, i). length s - i)"
    using a(1) by simp
next
  fix E :: pyenv and s :: str and i ch j
  assume a: "i < length s" "ch = s ! i" "isdigit E ch"
    and j: "j = i + length (takeWhile (isdigit E) (drop i s))"
  have "drop i s = s ! i # drop (Suc i) s"
    using a(1) by (simp add: Cons_nth_drop_Suc)
  then have "0 < length (takeWhile (isdigit E) (drop i s))"
    using a by simp
  then have "i < j"
    using j by simp
  then show "((E, s, j), (E, s, i)) \<in> measure (\<lambda>(E, s, i). length s - i)"
    using a(1) by simp
qed auto

definition strip_brackets :: "str \<Rightarrow> str" where
  "strip_brackets s0 =
     (let s1 = (if s0 \<noteq> [] \<and> hd s0 = 91 then tl s0 else s0)
      in if s1 \<noteq> [] \<and> last s1 = 93 then butlast s1 else s1)"

definition build_regex_from_example :: "pyenv \<Rightarrow> str \<Rightarrow> re" where
  "build_regex_from_example E example =
     (let s = strip_brackets (strip E example)
      in cat [Opt (Cls (Lit 91)), Group (cat (tokenize E s 0)), Opt (Cls (Lit 93))])"

section \<open>Extracting and parsing the timestamp of a line\<close>

datatype extractor = Extractor (user_pattern: "re option")

text \<open>\<open>Extractor.extract\<close>.\<close>

definition extract_line :: "pyenv \<Rightarrow> extractor \<Rightarrow> str \<Rightarrow> str option" where
  "extract_line E ex line =
     (case (case user_pattern ex of None \<Rightarrow> None | Some r \<Rightarrow> re_search E r line) of
        Some m \<Rightarrow> group1 line m
      | None \<Rightarrow>
          (case re_search E TIME_CORE_RE line of
             Some m \<Rightarrow>
               let start = (if 40 \<le> fst m then fst m - 40 else 0);
                   end' = min (length line) (fst (snd m) + 40)
               in Some (strip E (take (end' - start) (drop start line)))
           | None \<Rightarrow>
               if dateutil E \<noteq> None \<and> list_ex (isdigit E) line then Some line else None))"

definition parse_line_timestamp :: "pyenv \<Rightarrow> str \<Rightarrow> date option \<Rightarrow> datetime option" where
  "parse_line_timestamp E ts_text date_anchor =
     (case parse_epoch E ts_text of
        Some dt \<Rightarrow> Some dt
      | None \<Rightarrow>
          (case dateutil E of
             None \<Rightarrow> None
           | Some p \<Rightarrow>
               (case p True ts_text of
                  None \<Rightarrow> None
                | Some dt \<Rightarrow>
                    let lacks_date =
                          (re_search E YEAR_RE ts_text = None
                           \<and> re_search E MONTH_DAY_RE ts_text = None
                           \<and> re_search E MONTH_RE ts_text = None)
                    in (case date_anchor of
                          Some d \<Rightarrow> if lacks_date then Some (combine d (time_of dt)) else Some dt
                        | None \<Rightarrow> Some dt))))"

text \<open>
  The timestamp the locator and the streamer give a decoded line: extraction, where an
  empty candidate counts as none (\<open>if not ts_text\<close>), then parsing.
\<close>

definition line_timestamp :: "pyenv \<Rightarrow> extractor \<Rightarrow> date option \<Rightarrow> str \<Rightarrow> datetime option" where
  "line_timestamp E ex date_anchor line =
     (case extract_line E ex line of
        None \<Rightarrow> None
      | Some ts_text \<Rightarrow>
          if ts_text = [] then None else parse_line_timestamp E ts_text date_anchor)"

section \<open>Decoding bytes\<close>

text \<open>
  \<open>bytes.decode('utf-8', errors)\<close> as CPython decodes: a well-formed sequence gives its
  code point; an ill-formed one is the lead byte alone, or the lead byte with the
  continuation bytes accepted before the offending one, or everything left when the data
  ends inside a sequence.  The error handler \<open>strict\<close> raises, \<open>ignore\<close> drops the
  ill-formed bytes, \<open>replace\<close> puts U+FFFD in their place.
\<close>

datatype pyexc = SystemExit str | UnicodeDecodeError | OSError | ValueError

datatype errors = Strict | Ignore | Replace

definition is_cont :: "nat \<Rightarrow> bool" where
  "is_cont b = (128 \<le> b \<and> b < 192)"

definition second3 :: "nat \<Rightarrow> nat \<Rightarrow> bool" where
  "second3 b0 b1 =
     (if b0 = 224 then 160 \<le> b1 \<and> b1 < 192
      else if b0 = 237 then 128 \<le> b1 \<and> b1 < 160 else is_cont b1)"

definition second4 :: "nat \<Rightarrow> nat \<Rightarrow> bool" where
  "second4 b0 b1 =
     (if b0 = 240 then 144 \<le> b1 \<and> b1 < 192
      else if b0 = 244 then 128 \<le> b1 \<and> b1 < 144 else is_cont b1)"

text \<open>One step on a non-empty input: the code point, if the sequence is well formed, and
  the number of bytes the step covers.\<close>

fun utf8_step :: "nat \<Rightarrow> nat list \<Rightarrow> nat option \<times> nat" where
  "utf8_step b0 r =
     (if b0 < 128 then (Some b0, 1)
      else if b0 < 194 then (None, 1)
      else if b0 < 224 then
        (case r of
           [] \<Rightarrow> (None, 1)
         | b1 # _ \<Rightarrow>
             if is_cont b1 then (Some ((b0 - 192) * 64 + (b1 - 128)), 2) else (None, 1))
      else if b0 < 240 then
        (case r of
           [] \<Rightarrow> (None, 1)
         | b1 # r1 \<Rightarrow>
             if \<not> second3 b0 b1 then (None, 1)
             else (case r1 of
                     [] \<Rightarrow> (None, 2)
                   | b2 # _ \<Rightarrow>
                       if is_cont b2
                       then (Some ((b0 - 224) * 4096 + (b1 - 128) * 64 + (b2 - 128)), 3)
                       else (None, 2)))
      else if b0 < 245 then
        (case r of
           [] \<Rightarrow> (None, 1)
         | b1 # r1 \<Rightarrow>
             if \<not> second4 b0 b1 then (None, 1)
             else (case r1 of
                     [] \<Rightarrow> (None, 2)
                   | b2 # r2 \<Rightarrow>
                       if \<not> is_cont b2 then (None, 2)
                       else (case r2 of
                               [] \<Rightarrow> (None, 3)
                             | b3 # _ \<Rightarrow>
                                 if is_cont b3
                                 then (Some ((b0 - 240) * 262144 + (b1 - 128) * 4096
                                             + (b2 - 128) * 64 + (b3 - 128)), 4)
                                 else (None, 3))))
      else (None, 1))"

definition emit :: "nat \<Rightarrow> pyexc + str \<Rightarrow> pyexc + str" where
  "emit cp r = (case r of Inl e \<Rightarrow> Inl e | Inr s \<Rightarrow> Inr (cp # s))"

function utf8_decode :: "errors \<Rightarrow> nat list \<Rightarrow> pyexc + str" where
  "utf8_decode h [] = Inr []"
| "utf8_decode h (b0 # r) =
     (case utf8_step b0 r of
        (Some cp, n) \<Rightarrow> emit cp (utf8_decode h (drop (n - 1) r))
      | (None, n) \<Rightarrow>
          (case h of
             Strict \<Rightarrow> Inl UnicodeDecodeError
           | Ignore \<Rightarrow> utf8_decode h (drop (n - 1) r)
           | Replace \<Rightarrow> emit 65533 (utf8_decode h (drop (n - 1) r))))"
  by pat_completeness auto
termination
  by (relation "measure (\<lambda>(h, bs). length bs)") auto

definition decode_utf8 :: "errors \<Rightarrow> bytes \<Rightarrow> pyexc + str" where
  "decode_utf8 h raw = utf8_decode h (map of_char raw)"

definition decode_latin1 :: "bytes \<Rightarrow> str" where
  "decode_latin1 raw = map of_char raw"

text \<open>
  The decoding of a raw line in \<open>binary_search_start\<close> and \<open>print_range\<close>:
  \<^verbatim>\<open>try: s = line.decode('utf-8', errors='ignore')\<close>
  \<^verbatim>\<open>except Exception: s = line.decode('latin1', errors='ignore')\<close>
\<close>

definition decode_line :: "bytes \<Rightarrow> str" where
  "decode_line raw =
     (case decode_utf8 Ignore raw of Inr s \<Rightarrow> s | Inl _ \<Rightarrow> decode_latin1 raw)"

section \<open>Reading the file\<close>

definition file_size :: "bytes \<Rightarrow> nat" where
  "file_size f = length f"

text \<open>\<open>f.seek(pos); f.readline()\<close> on a file opened in binary mode: the bytes up to and
  with the next line feed, or up to the end of the file.\<close>

definition readline :: "bytes \<Rightarrow> nat \<Rightarrow> bytes" where
  "readline f pos =
     (let rest = drop pos f;
          l = takeWhile (\<lambda>b. b \<noteq> CHR 0x0A) rest
      in if length l < length rest then l @ [CHR 0x0A] else l)"

text \<open>The lines an iteration over a file yields, each with its line feed.\<close>

fun split_lines :: "'a \<Rightarrow> 'a list \<Rightarrow> 'a list \<Rightarrow> 'a list list" where
  "split_lines nl cur [] = (if cur = [] then [] else [cur])"
| "split_lines nl cur (b # bs) =
     (if b = nl then (cur @ [b]) # split_lines nl [] bs
      else split_lines nl (cur @ [b]) bs)"

text \<open>Text mode translates \<open>\r\n\<close> and a lone \<open>\r\<close> to \<open>\n\<close>.\<close>

fun universal_newlines :: "bool \<Rightarrow> str \<Rightarrow> str" where
  "universal_newlines pending_cr [] = []"
| "universal_newlines pending_cr (c # r) =
     (if c = 13 then 10 # universal_newlines True r
      else if c = 10 \<and> pending_cr then universal_newlines False r
      else c # universal_newlines False r)"

definition text_lines :: "bytes \<Rightarrow> str list" where
  "text_lines f =
     (case decode_utf8 Ignore f of
        Inr s \<Rightarrow> split_lines 10 [] (universal_newlines False s)
      | Inl _ \<Rightarrow> [])"

section \<open>The date anchor\<close>

fun anchor_scan :: "pyenv \<Rightarrow> extractor \<Rightarrow> str list \<Rightarrow> date option" where
  "anchor_scan E ex [] = None"
| "anchor_scan E ex (line # rest) =
     (case extract_line E ex line of
        None \<Rightarrow> anchor_scan E ex rest
      | Some ts_text \<Rightarrow>
          if ts_text = [] then anchor_scan E ex rest
          else (case parse_line_timestamp E ts_text None of
                  None \<Rightarrow> anchor_scan E ex rest
                | Some dt \<Rightarrow> Some (date_of dt)))"

text \<open>A file that cannot be opened (\<open>None\<close>) raises inside the \<open>try\<close> and gives no
  anchor.\<close>

definition find_first_date_anchor :: "pyenv \<Rightarrow> bytes option \<Rightarrow> extractor \<Rightarrow> date option" where
  "find_first_date_anchor E file ex =
     (case file of
        None \<Rightarrow> None
      | Some f \<Rightarrow> anchor_scan E ex (take 2000 (text_lines f)))"

section \<open>Locating the start of the range\<close>

function search_loop ::
  "pyenv \<Rightarrow> bytes \<Rightarrow> datetime \<Rightarrow> extractor \<Rightarrow> date option \<Rightarrow> nat \<Rightarrow> nat \<Rightarrow> nat" where
  "search_loop E f target ex date_anchor low hi =
     (if low < hi then
        let mid = (low + hi) div 2;
            pos = mid + length (readline f mid);
            line = readline f pos
        in if line = [] then low
           else (case line_timestamp E ex date_anchor (decode_line line) of
                   None \<Rightarrow> search_loop E f target ex date_anchor (pos + 1) hi
                 | Some ts \<Rightarrow>
                     if ts < target then search_loop E f target ex date_anchor (pos + 1) hi
                     else search_loop E f target ex date_anchor low mid)
      else low)"
  by pat_completeness auto
termination
  by (relation "measure (\<lambda>(E, f, target, ex, date_anchor, low, hi). hi - low)") auto

definition binary_search_start ::
  "pyenv \<Rightarrow> bytes \<Rightarrow> datetime \<Rightarrow> extractor \<Rightarrow> date option \<Rightarrow> nat" where
  "binary_search_start E f target ex date_anchor =
     search_loop E f target ex date_anchor 0 (file_size f)"

section \<open>Streaming the range\<close>

definition COLOR_CODES :: "(str \<times> str) list" where
  "COLOR_CODES =
     [(ascii ''reset'', 27 # ascii ''[0m''),
      (ascii ''cyan'', 27 # ascii ''[36m''),
      (ascii ''yellow'', 27 # ascii ''[33m''),
      (ascii ''green'', 27 # ascii ''[32m''),
      (ascii ''red'', 27 # ascii ''[31m''),
      (ascii ''magenta'', 27 # ascii ''[35m''),
      (ascii ''blue'', 27 # ascii ''[34m'')]"

definition ansi_enabled :: "pyenv \<Rightarrow> bool" where
  "ansi_enabled E = (stdout_isatty E \<and> \<not> no_color E)"

definition colorize :: "str \<Rightarrow> str \<Rightarrow> str" where
  "colorize text color =
     (case map_of COLOR_CODES color of Some c \<Rightarrow> c | None \<Rightarrow> 27 # ascii ''[36m'')
     @ text @ 27 # ascii ''[0m''"

text \<open>\<open>line.replace(old, new, 1)\<close>\<close>

fun replace_first :: "str \<Rightarrow> str \<Rightarrow> str \<Rightarrow> str" where
  "replace_first old new [] = (if old = [] then new else [])"
| "replace_first old new (c # r) =
     (if take (length old) (c # r) = old then new @ drop (length old) (c # r)
      else c # replace_first old new r)"

text \<open>The loop \<open>for raw in f\<close> of \<open>print_range\<close>; the result lists what each
  \<open>sys.stdout.write\<close> wrote.\<close>

fun stream ::
  "pyenv \<Rightarrow> extractor \<Rightarrow> date option \<Rightarrow> datetime \<Rightarrow> datetime \<Rightarrow> bool \<Rightarrow> str \<Rightarrow> bytes list
   \<Rightarrow> str list" where
  "stream E ex date_anchor start_dt end_dt do_color color [] = []"
| "stream E ex date_anchor start_dt end_dt do_color color (raw # rest) =
     (let line = decode_line raw in
      case extract_line E ex line of
        None \<Rightarrow> stream E ex date_anchor start_dt end_dt do_color color rest
      | Some ts_text \<Rightarrow>
          if ts_text = [] then stream E ex date_anchor start_dt end_dt do_color color rest
          else (case parse_line_timestamp E ts_text date_anchor of
                  None \<Rightarrow> stream E ex date_anchor start_dt end_dt do_color color rest
                | Some ts \<Rightarrow>
                    if end_dt < ts then []
                    else if start_dt \<le> ts \<and> ts \<le> end_dt then
                      (if do_color then replace_first ts_text (colorize ts_text color) line
                       else line)
                      # stream E ex date_anchor start_dt end_dt do_color color rest
                    else stream E ex date_anchor start_dt end_dt do_color color rest))"

section \<open>The run\<close>

text \<open>
  \<open>print_range\<close> up to the search: validation of the bounds, their ordering, the learned
  pattern, the anchor and its substitution.  The result is the pair of bounds the search
  and the stream use, with the extractor and the anchor.
\<close>

record plan =
  start_dt :: datetime
  end_dt :: datetime
  extractor_of :: extractor
  date_anchor :: "date option"

definition resolve_range :: "pyenv \<Rightarrow> bytes option \<Rightarrow> str \<Rightarrow> str \<Rightarrow> pyexc + plan" where
  "resolve_range E file start_s end_s =
     (case (parse_user_datetime E start_s, parse_user_datetime E end_s) of
        (Some s0, Some e0) \<Rightarrow>
          let (start0, end0) = (if e0 < s0 then (e0, s0) else (s0, e0));
              user_pat =
                (if \<not> input_is_time_only E start_s \<or> \<not> input_is_time_only E end_s then
                   build_regex_from_example E
                     (if \<not> input_is_time_only E start_s then start_s else end_s)
                 else build_regex_from_example E start_s);
              ex = Extractor (Some user_pat);
              need_anchor = (input_is_time_only E start_s \<or> input_is_time_only E end_s);
              anchor = (if need_anchor then find_first_date_anchor E file ex else None)
          in Inr \<lparr> start_dt =
                     (case anchor of
                        Some d \<Rightarrow>
                          if input_is_time_only E start_s then combine d (time_of start0)
                          else start0
                      | None \<Rightarrow> start0),
                   end_dt =
                     (case anchor of
                        Some d \<Rightarrow>
                          if input_is_time_only E end_s then combine d (time_of end0)
                          else end0
                      | None \<Rightarrow> end0),
                   extractor_of = ex,
                   date_anchor = anchor \<rparr>
      | _ \<Rightarrow> Inl (SystemExit (ascii ''Error: could not parse <start> or <end>.'')))"

definition print_range ::
  "pyenv \<Rightarrow> bytes option \<Rightarrow> str \<Rightarrow> str \<Rightarrow> bool \<Rightarrow> str \<Rightarrow> pyexc + str" where
  "print_range E file start_s end_s readability color =
     (case resolve_range E file start_s end_s of
        Inl e \<Rightarrow> Inl e
      | Inr p \<Rightarrow>
          (case file of
             None \<Rightarrow> Inl OSError
           | Some f \<Rightarrow>
               let start_pos =
                     binary_search_start E f (start_dt p) (extractor_of p) (date_anchor p);
                   do_color = (readability \<and> ansi_enabled E)
               in Inr (concat (stream E (extractor_of p) (date_anchor p) (start_dt p) (end_dt p)
                                 do_color color
                                 (split_lines (CHR 0x0A) [] (drop start_pos f))))))"

text \<open>How the process ends: what it wrote to standard output and to standard error and
  its exit status, or an exception nobody caught.\<close>

datatype outcome = Exit (stdout: str) (stderr: str) (status: nat) | Uncaught pyexc

definition startswith :: "str \<Rightarrow> str \<Rightarrow> bool" where
  "startswith prefix a = (take (length prefix) a = prefix)"

fun scan_args :: "str list \<Rightarrow> bool \<times> str \<times> str list \<Rightarrow> bool \<times> str \<times> str list" where
  "scan_args [] st = st"
| "scan_args (a # rest) (readability, color, args) =
     (if a = ascii ''-r'' \<or> a = ascii ''--readability'' then
        scan_args rest (True, color, args)
      else if startswith (ascii ''--readability='') a then
        scan_args rest (True, drop 1 (dropWhile (\<lambda>c. c \<noteq> 61) a), args)
      else scan_args rest (readability, color, args @ [a]))"

definition usage :: str where
  "usage = ascii ''Usage: tfind [--readability[=COLOR] | -r] <logfile> <start> <end>''"

definition main :: "pyenv \<Rightarrow> (str \<Rightarrow> bytes option) \<Rightarrow> str list \<Rightarrow> outcome" where
  "main E fs argv =
     (case scan_args (drop 1 argv) (False, ascii ''cyan'', []) of
        (readability, color, args) \<Rightarrow>
          if length args < 3 then Exit (usage @ [10]) [] 1
          else if length args \<noteq> 3 then Uncaught ValueError
          else (case print_range E (fs (args ! 0)) (args ! 1) (args ! 2) readability color of
                  Inr out \<Rightarrow> Exit out [] 0
                | Inl (SystemExit msg) \<Rightarrow> Exit [] (msg @ [10]) 1
                | Inl e \<Rightarrow> Uncaught e))"

section \<open>A sample environment\<close>

text \<open>
  A machine on UTC whose clock says 2026-11-04, without a terminal, and a stand-in for
  \<open>dateutil\<close> that reads the two shapes \<open>HH:MM:SS\<close> (on today's date, as \<open>dateutil\<close>
  does) and \<open>YYYY-MM-DD HH:MM:SS\<close> and raises on everything else.
\<close>

definition ordinal :: "int \<Rightarrow> int \<Rightarrow> int \<Rightarrow> date" where
  "ordinal y m d =
     (let y' = (if m \<le> 2 then y - 1 else y);
          era = y' div 400;
          yoe = y' - era * 400;
          doy = (153 * ((m + 9) mod 12) + 2) div 5 + d - 1;
          doe = yoe * 365 + yoe div 4 - yoe div 100 + doy
      in era * 146097 + doe - 305)"

definition digits_at :: "str \<Rightarrow> nat list \<Rightarrow> bool" where
  "digits_at s ps = list_all (\<lambda>i. 48 \<le> s ! i \<and> s ! i \<le> 57) ps"

definition number_at :: "str \<Rightarrow> nat list \<Rightarrow> nat" where
  "number_at s ps = foldl (\<lambda>a i. 10 * a + (s ! i - 48)) 0 ps"

definition clock_at :: "str \<Rightarrow> nat \<Rightarrow> time option" where
  "clock_at s i =
     (if digits_at s [i, i + 1, i + 3, i + 4, i + 6, i + 7] \<and> s ! (i + 2) = 58 \<and> s ! (i + 5) = 58
         \<and> number_at s [i, i + 1] < 24 \<and> number_at s [i + 3, i + 4] < 60
         \<and> number_at s [i + 6, i + 7] < 60
      then Some (((number_at s [i, i + 1] * 60 + number_at s [i + 3, i + 4]) * 60
                  + number_at s [i + 6, i + 7]) * 1000000)
      else None)"

definition sample_dateutil :: "date \<Rightarrow> bool \<Rightarrow> str \<Rightarrow> datetime option" where
  "sample_dateutil today fuzzy s =
     (if length s = 8 then map_option (\<lambda>t. (today, t)) (clock_at s 0)
      else if length s = 19 \<and> digits_at s [0, 1, 2, 3, 5, 6, 8, 9] \<and> s ! 4 = 45 \<and> s ! 7 = 45
              \<and> s ! 10 = 32
      then map_option
             (\<lambda>t. (ordinal (int (number_at s [0, 1, 2, 3])) (int (number_at s [5, 6]))
                     (int (number_at s [8, 9])), t))
             (clock_at s 11)
      else None)"

definition utc_fromtimestamp :: "int \<Rightarrow> int \<Rightarrow> datetime option" where
  "utc_fromtimestamp per_second iv =
     (let d = 719163 + iv div (86400 * per_second)
      in if 1 \<le> d \<and> d \<le> 3652059
         then Some (d, nat (iv mod (86400 * per_second)) * nat (1000000 div per_second))
         else None)"

definition sample_env :: pyenv where
  "sample_env =
     \<lparr> dateutil = Some (sample_dateutil 739924),
       fromtimestamp = utc_fromtimestamp 1,
       fromtimestamp_float = utc_fromtimestamp 1000,
       stdout_isatty = False,
       no_color = False,
       uni_isalpha = (\<lambda>c. False),
       uni_isdigit = (\<lambda>c. False),
       uni_isspace = (\<lambda>c. False),
       uni_isalnum = (\<lambda>c. False),
       uni_decimal = (\<lambda>c. None),
       uni_lower = (\<lambda>c. c) \<rparr>"

text \<open>The three-line log file of the scenario, and the pattern
  \<^verbatim>\<open>\[?(\d{1,2}:\d{1,2}:\d{1,2})\]?\<close> that is learned from a clock time.\<close>

definition line_A :: bytes where
  "line_A = ''2024-01-01 10:00:00 A'' @ [CHR 0x0A]"

definition line_B :: bytes where
  "line_B = ''2024-01-01 10:00:05 B'' @ [CHR 0x0A]"

definition line_C :: bytes where
  "line_C = ''2024-01-01 10:00:10 C'' @ [CHR 0x0A]"

definition noise_line :: bytes where
  "noise_line = ''-- restart --'' @ [CHR 0x0A]"

definition scenario_file :: bytes where
  "scenario_file = line_A @ line_B @ line_C"

definition clock_pattern :: re where
  "clock_pattern =
     cat [Opt (Cls (Lit 91)),
          Group (cat [Rep Digit 1 (Some 2), Cls (Lit 58), Rep Digit 1 (Some 2), Cls (Lit 58),
                      Rep Digit 1 (Some 2)]),
          Opt (Cls (Lit 93))]"

definition clock_extractor :: extractor where
  "clock_extractor = Extractor (Some clock_pattern)"

section \<open>Notions used to state the properties\<close>

text \<open>A string of ASCII decimal digits and the number it writes.\<close>

definition ascii_digits :: "str \<Rightarrow> bool" where
  "ascii_digits v = (\<forall>c \<in> set v. 48 \<le> c \<and> c \<le> 57)"

definition decimal_number :: "str \<Rightarrow> int" where
  "decimal_number v = foldl (\<lambda>a c. 10 * a + int (c - 48)) 0 v"

text \<open>The offsets at which the complete lines of a file begin, the timestamp the locator
  reads from the line at an offset, and a file whose lines all carry a timestamp, in
  non-decreasing order.\<close>

definition line_starts :: "bytes \<Rightarrow> nat list" where
  "line_starts f = filter (\<lambda>p. p = 0 \<or> f ! (p - 1) = CHR 0x0A) [0..<length f]"

definition timestamp_at ::
  "pyenv \<Rightarrow> extractor \<Rightarrow> date option \<Rightarrow> bytes \<Rightarrow> nat \<Rightarrow> datetime option" where
  "timestamp_at E ex anchor f p = line_timestamp E ex anchor (decode_line (readline f p))"

definition sorted_by_timestamp :: "pyenv \<Rightarrow> extractor \<Rightarrow> date option \<Rightarrow> bytes \<Rightarrow> bool" where
  "sorted_by_timestamp E ex anchor f =
     (\<forall>p \<in> set (line_starts f). \<forall>q \<in> set (line_starts f). p \<le> q \<longrightarrow>
        (case timestamp_at E ex anchor f p of
           None \<Rightarrow> False
         | Some tp \<Rightarrow>
             (case timestamp_at E ex anchor f q of None \<Rightarrow> False | Some tq \<Rightarrow> tp \<le> tq)))"

text \<open>The command-line words that \<open>main\<close> takes as options; the others are positional.\<close>

definition is_option :: "str \<Rightarrow> bool" where
  "is_option a =
     (a = ascii ''-r'' \<or> a = ascii ''--readability'' \<or> startswith (ascii ''--readability='') a)"

definition positional :: "str list \<Rightarrow> str list" where
  "positional argv = filter (\<lambda>a. \<not> is_option a) (drop 1 argv)"

section \<open>Evaluation\<close>

lemmas char_defs =
  isdigit_def isalpha_def isspace_def decimal_value_def isword_def fold_case_def
  ascii_letter_def

lemmas re_defs = re_search_def re_match_def re_fullmatch_def run_def word_at_def group1_def

lemmas learn_defs =
  build_regex_from_example_def strip_def lstrip_def strip_brackets_def lit_token_def
  escape_lit_def SPECIALS_def

section \<open>The epoch path\<close>

lemma run_digits:
  assumes "ascii_digits v"
  shows "run E Digit (Some b) (drop i v) = min b (length v - i)"
proof -
  have "\<forall>c \<in> set (drop i v). in_cls E Digit c"
    using assms by (auto simp: ascii_digits_def decimal_value_def dest!: in_set_dropD)
  then have "takeWhile (in_cls E Digit) (drop i v) = drop i v"
    by (simp only: takeWhile_eq_all_conv)
  then have "length (takeWhile (in_cls E Digit) (drop i v)) = length v - i"
    by (simp only: length_drop)
  then show ?thesis by (simp only: run_def Let_def option.case)
qed

lemma run_Nil: "run E c n [] = 0"
  by (simp add: run_def split: option.splits)

lemma digit_not_nl: "ascii_digits v \<Longrightarrow> i < length v \<Longrightarrow> v ! i \<noteq> 10"
  by (auto simp: ascii_digits_def dest!: nth_mem)

lemma epoch_match:
  assumes "ascii_digits v"
  shows "(re_match E EPOCH_RE v \<noteq> None) = (length v = 10 \<or> length v = 13)"
proof -
  have r0: "run E Digit (Some 10) v = min 10 (length v)"
    using run_digits[OF assms, of E 10 0] by simp
  note r1 = run_digits[OF assms, of E 3 10]
  consider "length v < 10" | "length v = 10" | "10 < length v" "length v < 13"
    | "length v = 13" | "13 < length v"
    by linarith
  then show ?thesis
  proof cases
    case 1
    then show ?thesis by (simp add: re_match_def EPOCH_RE_def r0 r1 run_Nil)
  next
    case 2
    then show ?thesis by (simp add: re_match_def EPOCH_RE_def r0 r1 run_Nil)
  next
    case 3
    then show ?thesis
      using digit_not_nl[OF assms, of 10]
      by (simp add: re_match_def EPOCH_RE_def r0 r1 min_def)
  next
    case 4
    then show ?thesis by (simp add: re_match_def EPOCH_RE_def r0 r1 run_Nil)
  next
    case 5
    then show ?thesis
      using digit_not_nl[OF assms, of 10] digit_not_nl[OF assms, of 13]
      by (simp add: re_match_def EPOCH_RE_def r0 r1 min_def)
  qed
qed

lemma digit_not_space: "48 \<le> c \<and> c \<le> 57 \<Longrightarrow> \<not> isspace E c"
  by (simp add: isspace_def)

lemma strip_digits:
  assumes "ascii_digits v"
  shows "strip E v = v"
proof -
  have l: "lstrip E v = v"
    using assms by (cases v) (auto simp: lstrip_def ascii_digits_def digit_not_space)
  have "dropWhile (isspace E) (rev v) = rev v"
    using assms
    by (cases "rev v")
       (auto simp: ascii_digits_def digit_not_space dest!: arg_cong[where f = set])
  then show ?thesis by (simp add: strip_def l)
qed

lemma foldl_digits:
  "ascii_digits v \<Longrightarrow>
   foldl (\<lambda>a c. 10 * a + int (the (decimal_value E c))) a0 v =
   foldl (\<lambda>a c. 10 * a + int (c - 48)) a0 v"
  by (induction v arbitrary: a0) (auto simp: ascii_digits_def decimal_value_def)

lemma py_int_digits:
  assumes "ascii_digits v" "v \<noteq> []"
  shows "py_int E v = Some (decimal_number v)"
proof -
  have "\<not> (\<exists>c \<in> set v. decimal_value E c = None)"
    using assms(1) by (auto simp: ascii_digits_def decimal_value_def)
  then show ?thesis
    using assms by (simp add: py_int_def strip_digits foldl_digits decimal_number_def Let_def)
qed

text \<open>
  C4.  On a string of decimal digits the epoch path reads exactly ten digits as Unix
  seconds and exactly thirteen as Unix milliseconds (the conversion of the float quotient);
  it rejects every other length, and the user bound then goes to the flexible parser, or
  fails when there is none.
\<close>

theorem epoch_boundary:
  assumes "ascii_digits v"
  shows "(length v = 10 \<longrightarrow> parse_epoch E v = fromtimestamp E (decimal_number v)) \<and>
         (length v = 13 \<longrightarrow> parse_epoch E v = fromtimestamp_float E (decimal_number v)) \<and>
         (length v \<noteq> 10 \<and> length v \<noteq> 13 \<longrightarrow>
            parse_epoch E v = None \<and>
            parse_user_datetime E v =
              (case dateutil E of None \<Rightarrow> None | Some p \<Rightarrow> p False v))"
proof -
  have m: "(re_match E EPOCH_RE v = None) = (length v \<noteq> 10 \<and> length v \<noteq> 13)"
    using epoch_match[OF assms, of E] by blast
  have i: "v \<noteq> [] \<Longrightarrow> py_int E v = Some (decimal_number v)"
    using py_int_digits[OF assms] by simp
  have n: "length v = 10 \<or> length v = 13 \<Longrightarrow> v \<noteq> []" by auto
  show ?thesis
    using m i n by (auto simp: parse_epoch_def parse_user_datetime_def)
qed

theorem epoch_boundary_witness:
  "ascii_digits (ascii ''1700000000'')
   \<and> parse_epoch sample_env (ascii ''1700000000'') = Some (738838, 80000000000)
   \<and> ascii_digits (ascii ''1700000000123'')
   \<and> parse_epoch sample_env (ascii ''1700000000123'') = Some (738838, 80000123000)
   \<and> ascii_digits (ascii ''17000000001'')
   \<and> parse_epoch sample_env (ascii ''17000000001'') = None
   \<and> parse_user_datetime sample_env (ascii ''17000000001'') = None"
proof -
  have d: "ascii_digits (ascii ''1700000000'')" "ascii_digits (ascii ''1700000000123'')"
    "ascii_digits (ascii ''17000000001'')"
    by (simp_all add: ascii_digits_def ascii_def)
  show ?thesis
    using d epoch_boundary[OF d(1), of sample_env] epoch_boundary[OF d(2), of sample_env]
      epoch_boundary[OF d(3), of sample_env]
    by (simp add: ascii_def decimal_number_def sample_env_def utc_fromtimestamp_def
        sample_dateutil_def)
qed

section \<open>The scenario, evaluated\<close>

lemma learn_clock:
  "build_regex_from_example E (ascii ''10:00:03'') = clock_pattern"
  by (simp add: learn_defs ascii_def char_defs re_defs clock_pattern_def)

lemma time_only_bounds:
  "input_is_time_only E (ascii ''10:00:03'')" "input_is_time_only E (ascii ''10:00:08'')"
  by (simp_all add: input_is_time_only_def ascii_def char_defs re_defs CLOCK_RE_def YEAR_RE_def
      MONTH_DAY_RE_def MONTH_RE_def word_i_def)

lemma decode_lines:
  "decode_line line_A = ascii ''2024-01-01 10:00:00 A'' @ [10]"
  "decode_line line_B = ascii ''2024-01-01 10:00:05 B'' @ [10]"
  "decode_line line_C = ascii ''2024-01-01 10:00:10 C'' @ [10]"
  by (simp_all add: decode_line_def decode_utf8_def line_A_def line_B_def line_C_def ascii_def emit_def)

lemma extract_lines:
  "extract_line E clock_extractor (decode_line line_A) = Some (ascii ''10:00:00'')"
  "extract_line E clock_extractor (decode_line line_B) = Some (ascii ''10:00:05'')"
  "extract_line E clock_extractor (decode_line line_C) = Some (ascii ''10:00:10'')"
  by (simp_all add: decode_lines extract_line_def clock_extractor_def clock_pattern_def ascii_def
      char_defs re_defs)

lemma clock_not_epoch:
  "parse_epoch E (ascii ''10:00:00'') = None"
  "parse_epoch E (ascii ''10:00:05'') = None"
  "parse_epoch E (ascii ''10:00:10'') = None"
  "parse_epoch E (ascii ''10:00:03'') = None"
  "parse_epoch E (ascii ''10:00:08'') = None"
  by (simp_all add: parse_epoch_def EPOCH_RE_def ascii_def char_defs re_defs)

lemma clock_lacks_date:
  "s \<in> {ascii ''10:00:00'', ascii ''10:00:05'', ascii ''10:00:10''} \<Longrightarrow>
   re_search E YEAR_RE s = None \<and> re_search E MONTH_DAY_RE s = None \<and> re_search E MONTH_RE s = None"
  by (auto simp add: ascii_def char_defs re_defs YEAR_RE_def MONTH_DAY_RE_def MONTH_RE_def word_i_def)

lemma text_scenario:
  "text_lines scenario_file = [decode_line line_A, decode_line line_B, decode_line line_C]"
  unfolding decode_lines
  by (simp add: text_lines_def scenario_file_def decode_utf8_def line_A_def line_B_def line_C_def ascii_def emit_def)

lemma read_scenario:
  "file_size scenario_file = 66"
  "readline scenario_file 0 = line_A"
  "length (readline scenario_file (Suc 0)) = 21"
  "length (readline scenario_file 2) = 20"
  "length (readline scenario_file 4) = 18"
  "length (readline scenario_file 8) = 14"
  "length (readline scenario_file 16) = 6"
  "readline scenario_file 22 = line_B"
  "length (readline scenario_file 33) = 11"
  "readline scenario_file 44 = line_C"
  "length line_A = 22"
  "line_B \<noteq> []" "line_C \<noteq> []"
  by (simp_all add: file_size_def readline_def scenario_file_def line_A_def line_B_def line_C_def)

lemma iterate_scenario:
  "split_lines (CHR 0x0A) [] (drop 0 scenario_file) = [line_A, line_B, line_C]"
  by (simp add: scenario_file_def line_A_def line_B_def line_C_def)


lemma clock_line_timestamp:
  assumes "dateutil E = Some p" "p True s = Some (d0, t)"
    and "s \<in> {ascii ''10:00:00'', ascii ''10:00:05'', ascii ''10:00:10''}"
  shows "parse_line_timestamp E s anchor = Some (case anchor of None \<Rightarrow> d0 | Some d \<Rightarrow> d, t)"
proof -
  have "parse_epoch E s = None"
    using assms(3) clock_not_epoch by auto
  then show ?thesis
    using assms(1,2) clock_lacks_date[OF assms(3), of E]
    by (simp add: parse_line_timestamp_def combine_def time_of_def split: option.splits)
qed

lemma scenario_search:
  assumes "line_timestamp E ex a (decode_line line_B) = Some tb"
    and "line_timestamp E ex a (decode_line line_C) = Some tc"
    and "\<not> tb < target" "\<not> tc < target"
  shows "binary_search_start E scenario_file target ex a = 0"
  using assms by (simp add: binary_search_start_def read_scenario Let_def)

lemma ascii_nonempty: "(ascii (c # cs) = []) = False"
  by (simp add: ascii_def)

lemma sample_clock:
  "dateutil sample_env = Some (sample_dateutil 739924)"
  "sample_dateutil 739924 fz (ascii ''10:00:00'') = Some (739924, 36000000000)"
  "sample_dateutil 739924 fz (ascii ''10:00:03'') = Some (739924, 36003000000)"
  "sample_dateutil 739924 fz (ascii ''10:00:05'') = Some (739924, 36005000000)"
  "sample_dateutil 739924 fz (ascii ''10:00:08'') = Some (739924, 36008000000)"
  "sample_dateutil 739924 fz (ascii ''10:00:10'') = Some (739924, 36010000000)"
  by (simp_all add: sample_env_def sample_dateutil_def clock_at_def digits_at_def number_at_def ascii_def)

lemma clock_timestamps:
  assumes "dateutil E = Some p"
    and "p True (ascii ''10:00:00'') = Some (d0, t0)"
    and "p True (ascii ''10:00:05'') = Some (d1, t1)"
    and "p True (ascii ''10:00:10'') = Some (d2, t2)"
  shows "line_timestamp E clock_extractor (Some a) (decode_line line_A) = Some (a, t0)"
    and "line_timestamp E clock_extractor (Some a) (decode_line line_B) = Some (a, t1)"
    and "line_timestamp E clock_extractor (Some a) (decode_line line_C) = Some (a, t2)"
    and "line_timestamp E clock_extractor None (decode_line line_A) = Some (d0, t0)"
  using assms
  by (simp_all add: line_timestamp_def extract_lines clock_line_timestamp[where p = p, OF assms(1)] ascii_nonempty)

lemma scenario_plan:
  assumes "dateutil E = Some p"
    and "p False (ascii ''10:00:03'') = Some (d, 36003000000)"
    and "p False (ascii ''10:00:08'') = Some (d, 36008000000)"
    and "p True (ascii ''10:00:00'') = Some (d0, 36000000000)"
  shows "resolve_range E (Some scenario_file) (ascii ''10:00:03'') (ascii ''10:00:08'') =
         Inr \<lparr> start_dt = (d0, 36003000000), end_dt = (d0, 36008000000),
               extractor_of = clock_extractor, date_anchor = Some d0 \<rparr>"
proof -
  have u: "parse_user_datetime E (ascii ''10:00:03'') = Some (d, 36003000000)"
    "parse_user_datetime E (ascii ''10:00:08'') = Some (d, 36008000000)"
    using assms by (simp_all add: parse_user_datetime_def clock_not_epoch)
  have pl: "parse_line_timestamp E (ascii ''10:00:00'') None = Some (d0, 36000000000)"
    using clock_line_timestamp[where p = p and anchor = None, OF assms(1) assms(4)] by simp
  have an: "find_first_date_anchor E (Some scenario_file) clock_extractor = Some d0"
    by (simp add: find_first_date_anchor_def text_scenario extract_lines pl date_of_def ascii_nonempty)
  show ?thesis
    by (simp add: resolve_range_def u time_only_bounds learn_clock an combine_def time_of_def
        clock_extractor_def[symmetric])
qed

lemma scenario_stream:
  assumes "dateutil E = Some p"
    and "p True (ascii ''10:00:00'') = Some (d0, 36000000000)"
    and "p True (ascii ''10:00:05'') = Some (d1, 36005000000)"
    and "p True (ascii ''10:00:10'') = Some (d2, 36010000000)"
  shows "stream E clock_extractor (Some a) (a, 36003000000) (a, 36008000000) False col
           [line_A, line_B, line_C] = [decode_line line_B]"
  using assms
  by (simp add: extract_lines clock_line_timestamp[where p = p, OF assms(1)] ascii_nonempty Let_def)


section \<open>Scenario A\<close>

text \<open>
  C2.  Scenario A, for any \<open>dateutil\<close> that reads the five clock times as times of day
  and dates the two bounds alike: the run on the three-line file with the bounds
  \<open>10:00:03\<close> and \<open>10:00:08\<close> writes line B to standard output, nothing else, and
  ends with status 0.
\<close>

theorem scenario_A:
  assumes "dateutil E = Some p"
    and "p False (ascii ''10:00:03'') = Some (d, 36003000000)"
    and "p False (ascii ''10:00:08'') = Some (d, 36008000000)"
    and "p True (ascii ''10:00:00'') = Some (d0, 36000000000)"
    and "p True (ascii ''10:00:05'') = Some (d1, 36005000000)"
    and "p True (ascii ''10:00:10'') = Some (d2, 36010000000)"
    and "fs (ascii ''app.log'') = Some scenario_file"
  shows "main E fs [ascii ''tfind'', ascii ''app.log'', ascii ''10:00:03'', ascii ''10:00:08'']
         = Exit (ascii ''2024-01-01 10:00:05 B'' @ [10]) [] 0"
proof -
  note ts = clock_timestamps[where p = p, OF assms(1) assms(4) assms(5) assms(6)]
  have b: "binary_search_start E scenario_file (d0, 36003000000) clock_extractor (Some d0) = 0"
    by (rule scenario_search[OF ts(2)[of d0] ts(3)[of d0]]) simp_all
  have pr: "print_range E (Some scenario_file) (ascii ''10:00:03'') (ascii ''10:00:08'') False
              (ascii ''cyan'') = Inr (decode_line line_B)"
    using iterate_scenario
    by (simp add: print_range_def scenario_plan[where p = p, OF assms(1-4)] b
        scenario_stream[where p = p, OF assms(1) assms(4) assms(5) assms(6)]
        del: stream.simps)
  have sc: "scan_args [ascii ''app.log'', ascii ''10:00:03'', ascii ''10:00:08'']
              (False, ascii ''cyan'', []) =
            (False, ascii ''cyan'', [ascii ''app.log'', ascii ''10:00:03'', ascii ''10:00:08''])"
    by (simp add: ascii_def startswith_def)
  show ?thesis
    by (simp add: main_def sc assms(7) pr decode_lines del: scan_args.simps)
qed

theorem scenario_A_witness:
  "main sample_env (\<lambda>path. Some scenario_file)
     [ascii ''tfind'', ascii ''app.log'', ascii ''10:00:03'', ascii ''10:00:08'']
   = Exit (ascii ''2024-01-01 10:00:05 B'' @ [10]) [] 0"
  by (rule scenario_A[where p = "sample_dateutil 739924" and d = 739924 and ?d0.0 = 739924
        and ?d1.0 = 739924 and ?d2.0 = 739924])
     (simp_all add: sample_clock)

section \<open>The streamer\<close>

lemma line_timestamp_None:
  "line_timestamp E ex a l = None \<Longrightarrow>
   extract_line E ex l = None \<or> extract_line E ex l = Some [] \<or>
   (\<exists>ts_text. extract_line E ex l = Some ts_text \<and> ts_text \<noteq> []
      \<and> parse_line_timestamp E ts_text a = None)"
  by (cases "extract_line E ex l") (auto simp: line_timestamp_def split: if_splits)

lemma line_timestamp_Some:
  "line_timestamp E ex a l = Some t \<Longrightarrow>
   \<exists>ts_text. extract_line E ex l = Some ts_text \<and> ts_text \<noteq> []
      \<and> parse_line_timestamp E ts_text a = Some t"
  by (cases "extract_line E ex l") (auto simp: line_timestamp_def split: if_splits)

lemma stream_unparsed:
  assumes "line_timestamp E ex a (decode_line u) = None"
  shows "stream E ex a s e dc col (u # rest) = stream E ex a s e dc col rest"
  using line_timestamp_None[OF assms]
  by (elim disjE exE conjE) (simp_all add: Let_def)

lemma stream_past_end:
  assumes "line_timestamp E ex a (decode_line x) = Some t" "e < t"
  shows "stream E ex a s e dc col (x # rest) = []"
  using line_timestamp_Some[OF assms(1)] assms(2)
  by (elim exE conjE) (simp add: Let_def)

lemma stream_cong_tail:
  assumes "stream E ex a s e dc col xs = stream E ex a s e dc col ys"
  shows "stream E ex a s e dc col (r # xs) = stream E ex a s e dc col (r # ys)"
  by (simp only: stream.simps Let_def assms)

lemma stream_skip_anywhere:
  "line_timestamp E ex a (decode_line u) = None \<Longrightarrow>
   stream E ex a s e dc col (pre @ u # rest) = stream E ex a s e dc col (pre @ rest)"
proof (induction pre)
  case Nil
  then show ?case by (simp only: append_Nil stream_unparsed)
next
  case (Cons r pre)
  then have "stream E ex a s e dc col (pre @ u # rest) = stream E ex a s e dc col (pre @ rest)"
    by blast
  then have "stream E ex a s e dc col (r # (pre @ u # rest)) =
             stream E ex a s e dc col (r # (pre @ rest))"
    by (rule stream_cong_tail)
  then show ?case by (simp only: append_Cons)
qed

lemma stream_head:
  "stream E ex a s e dc col (r # raws) = stream E ex a s e dc col raws
   \<or> stream E ex a s e dc col (r # raws) = []
   \<or> (\<exists>ts_text t.
        extract_line E ex (decode_line r) = Some ts_text \<and> ts_text \<noteq> [] \<and>
        parse_line_timestamp E ts_text a = Some t \<and> s \<le> t \<and> t \<le> e \<and>
        stream E ex a s e dc col (r # raws) =
          (if dc then replace_first ts_text (colorize ts_text col) (decode_line r)
           else decode_line r) # stream E ex a s e dc col raws)"
proof (cases "extract_line E ex (decode_line r)")
  case None
  then show ?thesis by (simp add: Let_def)
next
  case (Some ts_text)
  note ex = this
  show ?thesis
  proof (cases "ts_text = []")
    case True
    then show ?thesis using ex by (simp add: Let_def)
  next
    case False
    note ne = this
    show ?thesis
    proof (cases "parse_line_timestamp E ts_text a")
      case None
      then show ?thesis using ex ne by (simp add: Let_def)
    next
      case (Some t)
      note pa = this
      consider "e < t" | "\<not> e < t" "s \<le> t \<and> t \<le> e" | "\<not> e < t" "\<not> (s \<le> t \<and> t \<le> e)"
        by blast
      then show ?thesis
      proof cases
        case 1
        then have "stream E ex a s e dc col (r # raws) = []"
          using ex ne pa by (simp add: Let_def)
        then show ?thesis by blast
      next
        case 2
        then have "stream E ex a s e dc col (r # raws) =
          (if dc then replace_first ts_text (colorize ts_text col) (decode_line r)
           else decode_line r) # stream E ex a s e dc col raws"
          using ex ne pa by (simp add: Let_def)
        then show ?thesis using ex ne pa 2 by blast
      next
        case 3
        then have "stream E ex a s e dc col (r # raws) = stream E ex a s e dc col raws"
          using ex ne pa by (simp add: Let_def)
        then show ?thesis by blast
      qed
    qed
  qed
qed

lemma stream_emitted:
  "out \<in> set (stream E ex a s e dc col raws) \<Longrightarrow>
   \<exists>raw \<in> set raws. \<exists>ts_text t.
     extract_line E ex (decode_line raw) = Some ts_text \<and> ts_text \<noteq> [] \<and>
     parse_line_timestamp E ts_text a = Some t \<and> s \<le> t \<and> t \<le> e \<and>
     out = (if dc then replace_first ts_text (colorize ts_text col) (decode_line raw)
            else decode_line raw)"
proof (induction raws)
  case Nil
  then show ?case by (simp only: stream.simps list.set empty_iff)
next
  case (Cons r raws)
  let ?P = "\<lambda>raw. \<exists>ts_text t.
     extract_line E ex (decode_line raw) = Some ts_text \<and> ts_text \<noteq> [] \<and>
     parse_line_timestamp E ts_text a = Some t \<and> s \<le> t \<and> t \<le> e \<and>
     out = (if dc then replace_first ts_text (colorize ts_text col) (decode_line raw)
            else decode_line raw)"
  have tail: "out \<in> set (stream E ex a s e dc col raws) \<Longrightarrow> \<exists>raw \<in> set (r # raws). ?P raw"
  proof -
    assume "out \<in> set (stream E ex a s e dc col raws)"
    then obtain raw where "raw \<in> set raws" "?P raw" using Cons.IH by blast
    then have "raw \<in> set (r # raws)" by (simp only: list.set insert_iff) blast
    then show ?thesis using \<open>?P raw\<close> by blast
  qed
  from stream_head[of E ex a s e dc col r raws]
  consider "stream E ex a s e dc col (r # raws) = stream E ex a s e dc col raws"
    | "stream E ex a s e dc col (r # raws) = []"
    | ts_text t where "extract_line E ex (decode_line r) = Some ts_text" "ts_text \<noteq> []"
        "parse_line_timestamp E ts_text a = Some t" "s \<le> t" "t \<le> e"
        "stream E ex a s e dc col (r # raws) =
          (if dc then replace_first ts_text (colorize ts_text col) (decode_line r)
           else decode_line r) # stream E ex a s e dc col raws"
    by blast
  then show ?case
  proof cases
    case 1
    then have "out \<in> set (stream E ex a s e dc col raws)"
      using Cons.prems by (simp only:)
    then show ?thesis by (rule tail)
  next
    case 2
    then have False using Cons.prems by (simp only: list.set empty_iff)
    then show ?thesis ..
  next
    case 3
    then have "out = (if dc then replace_first ts_text (colorize ts_text col) (decode_line r)
           else decode_line r) \<or> out \<in> set (stream E ex a s e dc col raws)"
      using Cons.prems by (simp only: list.set insert_iff)
    then show ?thesis
    proof
      assume "out = (if dc then replace_first ts_text (colorize ts_text col) (decode_line r)
           else decode_line r)"
      then have "?P r" using 3(1-5) by blast
      moreover have "r \<in> set (r # raws)" by (simp only: list.set insert_iff) blast
      ultimately show ?thesis by blast
    next
      assume "out \<in> set (stream E ex a s e dc col raws)"
      then show ?thesis by (rule tail)
    qed
  qed
qed

text \<open>
  C5.  Whatever the streamer writes comes from a line whose timestamp was extracted and
  parsed and lies between the two bounds, both included; and a line without a timestamp
  is passed over: the stream with it equals the stream without it, wherever it stands.
\<close>

theorem stream_emits_only_in_range:
  "(\<forall>out \<in> set (stream E ex a s e dc col raws).
      \<exists>raw \<in> set raws. \<exists>ts_text t.
        extract_line E ex (decode_line raw) = Some ts_text \<and> ts_text \<noteq> [] \<and>
        parse_line_timestamp E ts_text a = Some t \<and> s \<le> t \<and> t \<le> e \<and>
        out = (if dc then replace_first ts_text (colorize ts_text col) (decode_line raw)
               else decode_line raw))
   \<and> (line_timestamp E ex a (decode_line u) = None \<longrightarrow>
        stream E ex a s e dc col (pre @ u # rest) = stream E ex a s e dc col (pre @ rest))"
proof (intro conjI ballI impI)
  fix out
  assume "out \<in> set (stream E ex a s e dc col raws)"
  then show "\<exists>raw \<in> set raws. \<exists>ts_text t.
        extract_line E ex (decode_line raw) = Some ts_text \<and> ts_text \<noteq> [] \<and>
        parse_line_timestamp E ts_text a = Some t \<and> s \<le> t \<and> t \<le> e \<and>
        out = (if dc then replace_first ts_text (colorize ts_text col) (decode_line raw)
               else decode_line raw)"
    by (rule stream_emitted)
next
  assume "line_timestamp E ex a (decode_line u) = None"
  then show "stream E ex a s e dc col (pre @ u # rest) = stream E ex a s e dc col (pre @ rest)"
    by (rule stream_skip_anywhere)
qed

text \<open>
  C6.  A line whose timestamp is after the end bound stops the stream: neither it nor
  anything that follows it is written, whatever follows.
\<close>

theorem stream_stops_past_end:
  "line_timestamp E ex a (decode_line x) = Some t \<Longrightarrow> e < t \<Longrightarrow>
   stream E ex a s e dc col (pre @ x # rest) = stream E ex a s e dc col pre"
proof (induction pre)
  case Nil
  then show ?case by (simp only: append_Nil stream_past_end[of E ex a x t e s dc col rest] stream.simps(1))
next
  case (Cons r pre)
  then have "stream E ex a s e dc col (pre @ x # rest) = stream E ex a s e dc col pre"
    by blast
  then have "stream E ex a s e dc col (r # (pre @ x # rest)) =
             stream E ex a s e dc col (r # pre)"
    by (rule stream_cong_tail)
  then show ?case by (simp only: append_Cons)
qed

end
